theory Spec2Isabelle
  imports Complex_Main "HOL-Library.Sublist" "HOL-Library.Word"
begin

section \<open>Text\<close>

text \<open>
  Column values, request parameters and the recommendation table are character strings.
  \<open>lower\<close> is \<^verbatim>\<open>str.lower()\<close> on them (the letters A to Z are folded, the table's
  keys being ASCII), \<open>str_in p s\<close> is Python's \<^verbatim>\<open>p in s\<close> on strings.
\<close>

definition lower_char :: "char \<Rightarrow> char" where
  "lower_char c =
     (case map_of (zip ''ABCDEFGHIJKLMNOPQRSTUVWXYZ'' ''abcdefghijklmnopqrstuvwxyz'') c of
        Some l \<Rightarrow> l
      | None \<Rightarrow> c)"

definition lower :: "string \<Rightarrow> string" where
  "lower s = map lower_char s"

fun str_in :: "string \<Rightarrow> string \<Rightarrow> bool" where
  "str_in p [] = (p = [])"
| "str_in p (c # s) = (prefix p (c # s) \<or> str_in p s)"

definition truthy :: "string option \<Rightarrow> bool" where
  \<comment> \<open>\<^verbatim>\<open>if x:\<close> on an \<^verbatim>\<open>Optional[str]\<close>: neither \<^verbatim>\<open>None\<close> nor the empty string\<close>
  "truthy x = (case x of None \<Rightarrow> False | Some s \<Rightarrow> s \<noteq> [])"

section \<open>The storage engine's text operators\<close>

text \<open>
  The engine is SQLite (\<^verbatim>\<open>DATABASE_URL = "sqlite:///./job_search.db"\<close>). \<open>like p s\<close> is
  its \<^verbatim>\<open>s LIKE p\<close>: \<^verbatim>\<open>%\<close> in the pattern stands for any run of characters, \<^verbatim>\<open>_\<close>
  for exactly one, and any other character for itself, the letters A to Z compared without
  regard to case. The query layer writes \<^verbatim>\<open>col.contains(x)\<close> as
  \<^verbatim>\<open>col LIKE '%' || x || '%'\<close>, passing \<^verbatim>\<open>x\<close> on as it is, and \<^verbatim>\<open>col.ilike(p)\<close> as
  \<^verbatim>\<open>lower(col) LIKE lower(p)\<close>.
\<close>

fun like :: "string \<Rightarrow> string \<Rightarrow> bool" where
  "like [] s = (s = [])"
| "like (p # ps) [] = (p = CHR ''%'' \<and> like ps [])"
| "like (p # ps) (c # cs) =
     (if p = CHR ''%'' then like ps (c # cs) \<or> like (p # ps) cs
      else if p = CHR ''_'' then like ps cs
      else lower_char p = lower_char c \<and> like ps cs)"

definition contains :: "string \<Rightarrow> string \<Rightarrow> bool" where
  "contains col x = like (''%'' @ x @ ''%'') col"

definition ilike :: "string \<Rightarrow> string \<Rightarrow> bool" where
  "ilike col p = like (lower p) (lower col)"

definition wildcard_free :: "string \<Rightarrow> bool" where
  "wildcard_free x = (CHR ''%'' \<notin> set x \<and> CHR ''_'' \<notin> set x)"

section \<open>Passwords and UTF-8\<close>

text \<open>
  A password is kept as the sequence of the Unicode code points of its \<^verbatim>\<open>str\<close>, since
  what the code does with it goes through its UTF-8 encoding. \<open>encode_utf8\<close> is
  \<^verbatim>\<open>s.encode('utf-8')\<close>; \<open>decode_utf8_ignore\<close> is
  \<^verbatim>\<open>b.decode('utf-8', errors='ignore')\<close>: every well-formed sequence gives its code
  point, and a byte that starts none is dropped.
\<close>

type_synonym byte = "8 word"
type_synonym pystr = "nat list"

definition encode_char :: "nat \<Rightarrow> byte list" where
  "encode_char c =
     (if c < 0x80 then [of_nat c]
      else if c < 0x800 then [of_nat (0xC0 + c div 64), of_nat (0x80 + c mod 64)]
      else if c < 0x10000 then
        [of_nat (0xE0 + c div 4096), of_nat (0x80 + c div 64 mod 64), of_nat (0x80 + c mod 64)]
      else
        [of_nat (0xF0 + c div 262144 mod 8), of_nat (0x80 + c div 4096 mod 64),
         of_nat (0x80 + c div 64 mod 64), of_nat (0x80 + c mod 64)])"

definition encode_utf8 :: "pystr \<Rightarrow> byte list" where
  "encode_utf8 s = concat (map encode_char s)"

definition is_cont :: "byte \<Rightarrow> bool" where
  "is_cont b = (0x80 \<le> b \<and> b \<le> 0xBF)"

definition second_ok3 :: "byte \<Rightarrow> byte \<Rightarrow> bool" where
  \<comment> \<open>the second byte of a three-byte sequence: no overlong form, no surrogate\<close>
  "second_ok3 b0 b1 =
     (if b0 = 0xE0 then 0xA0 \<le> b1 \<and> b1 \<le> 0xBF
      else if b0 = 0xED then 0x80 \<le> b1 \<and> b1 \<le> 0x9F
      else is_cont b1)"

definition second_ok4 :: "byte \<Rightarrow> byte \<Rightarrow> bool" where
  \<comment> \<open>the second byte of a four-byte sequence: no overlong form, nothing past U+10FFFF\<close>
  "second_ok4 b0 b1 =
     (if b0 = 0xF0 then 0x90 \<le> b1 \<and> b1 \<le> 0xBF
      else if b0 = 0xF4 then 0x80 \<le> b1 \<and> b1 \<le> 0x8F
      else is_cont b1)"

fun decode_utf8_ignore :: "byte list \<Rightarrow> pystr" where
  "decode_utf8_ignore [] = []"
| "decode_utf8_ignore (b0 # bs) =
     (if b0 < 0x80 then unat b0 # decode_utf8_ignore bs
      else if 0xC2 \<le> b0 \<and> b0 \<le> 0xDF then
        (case bs of
           b1 # r \<Rightarrow>
             if is_cont b1
             then (unat b0 mod 32 * 64 + unat b1 mod 64) # decode_utf8_ignore r
             else decode_utf8_ignore bs
         | _ \<Rightarrow> decode_utf8_ignore bs)
      else if 0xE0 \<le> b0 \<and> b0 \<le> 0xEF then
        (case bs of
           b1 # b2 # r \<Rightarrow>
             if second_ok3 b0 b1 \<and> is_cont b2
             then (unat b0 mod 16 * 4096 + unat b1 mod 64 * 64 + unat b2 mod 64)
                  # decode_utf8_ignore r
             else decode_utf8_ignore bs
         | _ \<Rightarrow> decode_utf8_ignore bs)
      else if 0xF0 \<le> b0 \<and> b0 \<le> 0xF4 then
        (case bs of
           b1 # b2 # b3 # r \<Rightarrow>
             if second_ok4 b0 b1 \<and> is_cont b2 \<and> is_cont b3
             then (unat b0 mod 8 * 262144 + unat b1 mod 64 * 4096 + unat b2 mod 64 * 64
                   + unat b3 mod 64) # decode_utf8_ignore r
             else decode_utf8_ignore bs
         | _ \<Rightarrow> decode_utf8_ignore bs)
      else decode_utf8_ignore bs)"

definition truncate_password :: "pystr \<Rightarrow> pystr" where
  \<comment> \<open>\<^verbatim>\<open>password.encode('utf-8')[:72].decode('utf-8', errors='ignore')\<close>\<close>
  "truncate_password password = decode_utf8_ignore (take 72 (encode_utf8 password))"

section \<open>The data model\<close>

text \<open>
  One record per table. A table is the list of its rows in insertion order, which is also
  the order of their identifiers and the order in which an unordered query returns them.
  Instants are whole seconds (as in a token's \<^verbatim>\<open>exp\<close>), a date is year, month and
  day. The type \<open>'h\<close> is that of a stored password hash. The user's \<^verbatim>\<open>id\<close> and
  \<^verbatim>\<open>location\<close> columns are \<open>u_id\<close> and \<open>user_location\<close> here, a job's \<^verbatim>\<open>id\<close> is
  \<open>j_id\<close> and an application's \<open>a_id\<close>.
\<close>

type_synonym instant = int
type_synonym date = "nat \<times> nat \<times> nat"

record 'h user =
  u_id :: nat
  email :: string
  hashed_password :: 'h
  full_name :: string
  date_of_birth :: "date option"
  user_location :: string
  graduation_date :: "date option"
  graduation_institution :: string
  transportation_mode :: string
  resume_url :: "string option"
  created_at :: instant

text \<open>
  \<open>job_fields\<close> is a \<^verbatim>\<open>Job(...)\<close> object before it is stored (and the \<^verbatim>\<open>JobCreate\<close>
  schema, which has the same fields); the database adds the identifier and the posting
  instant.
\<close>

record job_fields =
  title :: string
  company :: string
  location :: string
  salary_min :: "real option"
  salary_max :: "real option"
  description :: string
  requirements :: string
  job_type :: string
  category :: string
  is_remote :: bool

record job = job_fields +
  j_id :: nat
  posted_date :: instant

record application =
  a_id :: nat
  user_id :: nat
  job_id :: nat
  status :: string
  applied_at :: instant

record 'h database =
  users :: "'h user list"
  jobs :: "job list"
  applications :: "application list"

definition empty_database :: "'h database" where
  "empty_database = \<lparr>users = [], jobs = [], applications = []\<rparr>"

definition next_id :: "nat list \<Rightarrow> nat" where
  \<comment> \<open>the identifier an insert gives the new row: one more than the largest in the table\<close>
  "next_id ids = Suc (fold max ids 0)"

definition add_job :: "instant \<Rightarrow> job_fields \<Rightarrow> 'h database \<Rightarrow> 'h database" where
  "add_job now row db =
     db\<lparr>jobs := jobs db @
        [job_fields.extend row
           \<lparr>j_id = next_id (map j_id (jobs db)), posted_date = now\<rparr>]\<rparr>"

definition add_all :: "instant \<Rightarrow> job_fields list \<Rightarrow> 'h database \<Rightarrow> 'h database" where
  "add_all now rows db = fold (add_job now) rows db"

section \<open>Failures\<close>

datatype error =
  HTTPException nat string
| ValueError

section \<open>The libraries the code calls\<close>

text \<open>
  The password hashing context, the token library and the date parser are not part of the
  program; the operations take them as a parameter. Hashing is salted, so \<open>pwd_hash\<close>
  has the salt as an argument, and decoding a token checks its expiry against the clock,
  so \<open>jwt_decode\<close> has the current instant as one.
\<close>

datatype claim = Str string | Num int

type_synonym claims = "string \<rightharpoonup> claim"

datatype jwt_error = ExpiredSignatureError | JWTError

record ('h, 't) library =
  pwd_hash :: "nat \<Rightarrow> pystr \<Rightarrow> 'h"
  pwd_verify :: "pystr \<Rightarrow> 'h \<Rightarrow> bool"
  jwt_encode :: "claims \<Rightarrow> string \<Rightarrow> string \<Rightarrow> 't"
  jwt_decode :: "instant \<Rightarrow> 't \<Rightarrow> string \<Rightarrow> string list \<Rightarrow> jwt_error + claims"
  strptime :: "string \<Rightarrow> string \<Rightarrow> date option"



definition SECRET_KEY :: string where
  "SECRET_KEY = ''your-secret-key-change-this''"

definition ALGORITHM :: string where
  "ALGORITHM = ''HS256''"

definition ACCESS_TOKEN_EXPIRE_MINUTES :: int where
  "ACCESS_TOKEN_EXPIRE_MINUTES = 30"

definition timedelta_minutes :: "int \<Rightarrow> int" where
  "timedelta_minutes m = 60 * m"

section \<open>Authentication\<close>


definition get_password_hash :: "('h, 't) library \<Rightarrow> nat \<Rightarrow> pystr \<Rightarrow> 'h" where
  "get_password_hash L salt password = pwd_hash L salt (truncate_password password)"

definition create_access_token :: "('h, 't) library \<Rightarrow> instant \<Rightarrow> claims \<Rightarrow> 't" where
  "create_access_token L now data =
     (let expire = now + timedelta_minutes ACCESS_TOKEN_EXPIRE_MINUTES;
          to_encode = data(''exp'' \<mapsto> Num expire)
      in jwt_encode L to_encode SECRET_KEY ALGORITHM)"


definition get_current_user :: "claim \<Rightarrow> 'h database \<Rightarrow> error + 'h user" where
  "get_current_user email' db =
     (case find (\<lambda>u. Str (email u) = email') (users db) of
        None \<Rightarrow> Inl (HTTPException 404 ''User not found'')
      | Some user \<Rightarrow> Inr user)"

definition parse_date :: "('h, 't) library \<Rightarrow> string option \<Rightarrow> error + date option" where
  \<comment> \<open>\<^verbatim>\<open>datetime.strptime(d, "%Y-%m-%d").date() if d else None\<close>\<close>
  "parse_date L d =
     (if truthy d then
        (case strptime L (the d) ''%Y-%m-%d'' of
           None \<Rightarrow> Inl ValueError
         | Some v \<Rightarrow> Inr (Some v))
      else Inr None)"

text \<open>
  \<^verbatim>\<open>POST /auth/signup\<close> and \<^verbatim>\<open>POST /auth/login\<close>. Both answer with the token and the
  stored user, of which the response shows a selection of fields. \<open>resume\<close> says whether
  a file was uploaded.
\<close>

definition signup ::
  "('h, 't) library \<Rightarrow> instant \<Rightarrow> nat \<Rightarrow> string \<Rightarrow> pystr \<Rightarrow> string \<Rightarrow> string option \<Rightarrow> string \<Rightarrow>
   string option \<Rightarrow> string \<Rightarrow> string \<Rightarrow> bool \<Rightarrow> 'h database \<Rightarrow>
   'h database \<times> (error + 't \<times> 'h user)" where
  "signup L now salt email' password full_name' date_of_birth' location' graduation_date'
      graduation_institution' transportation_mode' resume db =
     (case find (\<lambda>u. email u = email') (users db) of
        Some db_user \<Rightarrow> (db, Inl (HTTPException 400 ''Email already registered''))
      | None \<Rightarrow>
          (let hashed = get_password_hash L salt password in
           case parse_date L date_of_birth' of
             Inl e \<Rightarrow> (db, Inl e)
           | Inr dob \<Rightarrow>
               (case parse_date L graduation_date' of
                  Inl e \<Rightarrow> (db, Inl e)
                | Inr grad_date \<Rightarrow>
                    (let db_user =
                           \<lparr>u_id = next_id (map u_id (users db)),
                            email = email',
                            hashed_password = hashed,
                            full_name = full_name',
                            date_of_birth = dob,
                            user_location = location',
                            graduation_date = grad_date,
                            graduation_institution = graduation_institution',
                            transportation_mode = transportation_mode',
                            resume_url =
                              (if resume then Some (''/resumes/'' @ email' @ ''_resume.pdf'')
                               else None),
                            created_at = now\<rparr>;
                         access_token = create_access_token L now [''sub'' \<mapsto> Str email']
                     in (db\<lparr>users := users db @ [db_user]\<rparr>, Inr (access_token, db_user))))))"


section \<open>The job catalog\<close>

definition Job ::
  "string \<Rightarrow> string \<Rightarrow> string \<Rightarrow> real \<Rightarrow> real \<Rightarrow> string \<Rightarrow> string \<Rightarrow> string \<Rightarrow> string \<Rightarrow> bool \<Rightarrow>
   job_fields" where
  \<comment> \<open>the constructor call of the sample data, its keyword arguments in their order\<close>
  "Job title' company' location' salary_min' salary_max' description' requirements'
       job_type' category' is_remote' =
     \<lparr>title = title', company = company', location = location',
      salary_min = Some salary_min', salary_max = Some salary_max',
      description = description', requirements = requirements', job_type = job_type',
      category = category', is_remote = is_remote'\<rparr>"

definition sample_jobs :: "job_fields list" where
  "sample_jobs =
     \<comment> \<open>IT & Software Development (20 jobs)\<close>
     [ Job ''Flutter Developer'' ''Tech Corp'' ''New York, NY'' 80000 120000
         ''We are looking for a skilled Flutter developer to build cross-platform mobile applications.''
         ''3+ years experience, Dart knowledge, Flutter framework''
         ''Full-time'' ''IT'' True
     , Job ''Data Analyst'' ''Data Insights'' ''San Francisco, CA'' 70000 110000
         ''Analyze business data and provide insights for decision making.''
         ''SQL, Python, Statistics knowledge''
         ''Contract'' ''IT'' False
     , Job ''Senior Python Developer'' ''CodeCraft Inc'' ''Austin, TX'' 95000 140000
         ''Develop scalable backend systems using Python and Django.''
         ''5+ years Python, Django, REST APIs''
         ''Full-time'' ''IT'' True
     , Job ''Product Manager'' ''Innovation Labs'' ''Seattle, WA'' 100000 150000
         ''Define product roadmap and work with engineering teams.''
         ''7+ years product management experience''
         ''Full-time'' ''IT'' False
     , Job ''UX Designer'' ''Design Studio'' ''Los Angeles, CA'' 70000 95000
         ''Create beautiful and intuitive user interfaces.''
         ''Portfolio, Figma, UI/UX principles''
         ''Full-time'' ''IT'' True
     , Job ''DevOps Engineer'' ''Cloud Solutions'' ''Remote'' 90000 130000
         ''Manage cloud infrastructure and CI/CD pipelines.''
         ''AWS/Azure, Docker, Kubernetes, Terraform''
         ''Full-time'' ''IT'' True
     , Job ''React Developer'' ''WebDev Co'' ''Denver, CO'' 85000 115000
         ''Build modern web applications using React and TypeScript.''
         ''React, JavaScript/TypeScript, Redux''
         ''Full-time'' ''IT'' True
     , Job ''Mobile App Tester'' ''QA Masters'' ''Remote'' 50000 70000
         ''Test mobile applications across different devices.''
         ''Testing experience, attention to detail''
         ''Contract'' ''IT'' True
     , Job ''Data Scientist'' ''AI Innovations'' ''San Francisco, CA'' 110000 160000
         ''Build machine learning models and analyze complex datasets.''
         ''Python, ML frameworks, Statistics PhD preferred''
         ''Full-time'' ''IT'' False
     , Job ''Backend Engineer'' ''StartupXYZ'' ''New York, NY'' 95000 135000
         ''Design and implement scalable backend services.''
         ''Node.js or Python, databases, microservices''
         ''Full-time'' ''IT'' False
     , Job ''Java Developer'' ''Enterprise Solutions'' ''Atlanta, GA'' 90000 125000
         ''Develop enterprise applications using Java and Spring.''
         ''Java, Spring Boot, microservices architecture''
         ''Full-time'' ''IT'' False
     , Job ''iOS Developer'' ''Mobile First'' ''San Jose, CA'' 95000 135000
         ''Build native iOS applications using Swift.''
         ''Swift, iOS SDK, UIKit, SwiftUI''
         ''Full-time'' ''IT'' False
     , Job ''Full Stack Developer'' ''Tech Startup'' ''Remote'' 85000 120000
         ''Build end-to-end web applications.''
         ''React, Node.js, MongoDB, REST APIs''
         ''Full-time'' ''IT'' True
     , Job ''AI/ML Engineer'' ''Deep Learning Co'' ''Boston, MA'' 120000 170000
         ''Develop and deploy machine learning models.''
         ''TensorFlow, PyTorch, Deep Learning, Python''
         ''Full-time'' ''IT'' False
     , Job ''Cybersecurity Analyst'' ''SecureNet'' ''Remote'' 85000 115000
         ''Monitor and protect systems from security threats.''
         ''Security certifications, penetration testing''
         ''Full-time'' ''IT'' True
     , Job ''Database Administrator'' ''DataSafe Inc'' ''Chicago, IL'' 75000 105000
         ''Manage and optimize database systems.''
         ''SQL Server, PostgreSQL, performance tuning''
         ''Full-time'' ''IT'' False
     , Job ''Cloud Architect'' ''CloudTech'' ''Remote'' 130000 180000
         ''Design cloud infrastructure and migration strategies.''
         ''AWS/Azure/GCP certified, 7+ years experience''
         ''Full-time'' ''IT'' True
     , Job ''Software Tester'' ''QA Solutions'' ''Austin, TX'' 55000 80000
         ''Perform automated and manual testing.''
         ''Selenium, test automation, Agile methodology''
         ''Full-time'' ''IT'' False
     , Job ''Technical Writer'' ''DocTech'' ''Remote'' 60000 85000
         ''Create technical documentation and user guides.''
         ''Technical writing, API documentation''
         ''Full-time'' ''IT'' True
     , Job ''Network Engineer'' ''NetWorks LLC'' ''Houston, TX'' 70000 100000
         ''Design and maintain network infrastructure.''
         ''Cisco, networking protocols, troubleshooting''
         ''Full-time'' ''IT'' False
     \<comment> \<open>Marketing & Sales (15 jobs)\<close>
     , Job ''Marketing Manager'' ''Marketing Pro'' ''Remote'' 60000 90000
         ''Lead our marketing team and develop strategies to grow our brand.''
         ''5+ years experience in digital marketing''
         ''Full-time'' ''Marketing'' True
     , Job ''Sales Representative'' ''SalesPro Corp'' ''Chicago, IL'' 50000 75000
         ''Drive sales and build relationships with clients.''
         ''2+ years sales experience, excellent communication''
         ''Full-time'' ''Marketing'' False
     , Job ''Content Writer'' ''MediaWorks'' ''Remote'' 45000 65000
         ''Create engaging content for various platforms.''
         ''Strong writing skills, SEO knowledge''
         ''Part-time'' ''Marketing'' True
     , Job ''Graphic Designer'' ''Creative Agency'' ''Miami, FL'' 55000 80000
         ''Design visual content for marketing campaigns.''
         ''Adobe Creative Suite, portfolio required''
         ''Full-time'' ''Marketing'' False
     , Job ''SEO Specialist'' ''Digital Growth'' ''Remote'' 55000 80000
         ''Optimize websites for search engines and drive organic traffic.''
         ''SEO tools, Google Analytics, content strategy''
         ''Full-time'' ''Marketing'' True
     , Job ''Social Media Manager'' ''Brand Builders'' ''Remote'' 50000 75000
         ''Manage social media accounts and create engaging content.''
         ''Social media experience, content creation skills''
         ''Full-time'' ''Marketing'' True
     , Job ''Digital Marketing Specialist'' ''AdTech Solutions'' ''Los Angeles, CA'' 60000 85000
         ''Plan and execute digital marketing campaigns.''
         ''Google Ads, Facebook Ads, analytics''
         ''Full-time'' ''Marketing'' False
     , Job ''Brand Manager'' ''Consumer Goods Co'' ''New York, NY'' 80000 110000
         ''Develop and maintain brand identity.''
         ''Brand strategy, market research, 5+ years''
         ''Full-time'' ''Marketing'' False
     , Job ''Email Marketing Specialist'' ''EmailPro'' ''Remote'' 50000 70000
         ''Create and manage email marketing campaigns.''
         ''Mailchimp, A/B testing, copywriting''
         ''Full-time'' ''Marketing'' True
     , Job ''Public Relations Manager'' ''PR Experts'' ''Washington DC'' 70000 95000
         ''Manage media relations and company reputation.''
         ''PR experience, media contacts, crisis management''
         ''Full-time'' ''Marketing'' False
     , Job ''Video Editor'' ''Media Production'' ''Remote'' 55000 80000
         ''Edit video content for various platforms.''
         ''Adobe Premiere, Final Cut Pro, creativity''
         ''Contract'' ''Marketing'' True
     , Job ''Copywriter'' ''Ad Agency'' ''Chicago, IL'' 55000 75000
         ''Write compelling copy for advertisements.''
         ''Creative writing, advertising experience''
         ''Full-time'' ''Marketing'' False
     , Job ''Marketing Analyst'' ''Analytics Co'' ''Remote'' 65000 90000
         ''Analyze marketing data and campaign performance.''
         ''Data analysis, Excel, marketing metrics''
         ''Full-time'' ''Marketing'' True
     , Job ''Event Coordinator'' ''Events Plus'' ''Las Vegas, NV'' 45000 65000
         ''Plan and execute corporate events.''
         ''Event planning, organization skills''
         ''Full-time'' ''Marketing'' False
     , Job ''Influencer Marketing Manager'' ''Social Reach'' ''Remote'' 70000 95000
         ''Manage influencer partnerships and campaigns.''
         ''Influencer marketing, negotiation skills''
         ''Full-time'' ''Marketing'' True
     \<comment> \<open>Engineering (15 jobs)\<close>
     , Job ''Mechanical Engineer'' ''AutoTech Inc'' ''Detroit, MI'' 75000 105000
         ''Design mechanical systems for automotive products.''
         ''CAD, SolidWorks, 3+ years experience''
         ''Full-time'' ''Other'' False
     , Job ''Electrical Engineer'' ''PowerGrid Solutions'' ''Houston, TX'' 80000 110000
         ''Design electrical systems and circuits.''
         ''Circuit design, MATLAB, power systems''
         ''Full-time'' ''Other'' False
     , Job ''Civil Engineer'' ''Construction Pros'' ''Phoenix, AZ'' 70000 95000
         ''Design infrastructure and construction projects.''
         ''AutoCAD, structural analysis, PE license''
         ''Full-time'' ''Other'' False
     , Job ''Chemical Engineer'' ''ChemTech Industries'' ''Newark, NJ'' 85000 115000
         ''Develop chemical processes and products.''
         ''Process engineering, ChemCAD, safety protocols''
         ''Full-time'' ''Other'' False
     , Job ''Biomedical Engineer'' ''MedDevice Corp'' ''Boston, MA'' 80000 110000
         ''Design medical devices and equipment.''
         ''Medical devices, FDA regulations, CAD''
         ''Full-time'' ''Other'' False
     , Job ''Aerospace Engineer'' ''AeroSpace Systems'' ''Seattle, WA'' 95000 135000
         ''Design aircraft and spacecraft systems.''
         ''Aerodynamics, CATIA, systems engineering''
         ''Full-time'' ''Other'' False
     , Job ''Industrial Engineer'' ''Manufacturing Co'' ''Cleveland, OH'' 70000 95000
         ''Optimize production processes and efficiency.''
         ''Lean manufacturing, Six Sigma, process improvement''
         ''Full-time'' ''Other'' False
     , Job ''Quality Engineer'' ''QualityFirst'' ''San Diego, CA'' 75000 100000
         ''Ensure product quality and compliance.''
         ''Quality management, ISO standards, inspection''
         ''Full-time'' ''Other'' False
     , Job ''Process Engineer'' ''Tech Manufacturing'' ''Austin, TX'' 80000 110000
         ''Improve manufacturing processes.''
         ''Process optimization, lean principles, data analysis''
         ''Full-time'' ''Other'' False
     , Job ''Environmental Engineer'' ''EcoSolutions'' ''Portland, OR'' 70000 95000
         ''Develop solutions for environmental issues.''
         ''Environmental science, regulations, water treatment''
         ''Full-time'' ''Other'' False
     , Job ''Structural Engineer'' ''BuildRight'' ''Miami, FL'' 85000 115000
         ''Design structural systems for buildings.''
         ''Structural analysis, steel/concrete design, PE license''
         ''Full-time'' ''Other'' False
     , Job ''Systems Engineer'' ''Defense Systems'' ''Arlington, VA'' 95000 130000
         ''Design complex system architectures.''
         ''Systems engineering, requirements analysis, DoD clearance''
         ''Full-time'' ''Other'' False
     , Job ''Manufacturing Engineer'' ''Auto Parts Inc'' ''Detroit, MI'' 75000 100000
         ''Design and improve manufacturing processes.''
         ''Manufacturing systems, automation, CAD''
         ''Full-time'' ''Other'' False
     , Job ''Petroleum Engineer'' ''Energy Corp'' ''Dallas, TX'' 90000 130000
         ''Design oil and gas extraction systems.''
         ''Reservoir engineering, drilling operations''
         ''Full-time'' ''Other'' False
     , Job ''Materials Engineer'' ''Advanced Materials'' ''Pittsburgh, PA'' 80000 110000
         ''Research and develop new materials.''
         ''Materials science, testing, R&D experience''
         ''Full-time'' ''Other'' False
     \<comment> \<open>Finance & Business (15 jobs)\<close>
     , Job ''Financial Analyst'' ''FinTech Solutions'' ''Boston, MA'' 75000 105000
         ''Analyze financial data and create reports.''
         ''Finance degree, Excel, financial modeling''
         ''Full-time'' ''Finance'' False
     , Job ''Accountant'' ''Accounting Firm'' ''New York, NY'' 60000 85000
         ''Manage financial records and prepare reports.''
         ''CPA, accounting software, 3+ years''
         ''Full-time'' ''Finance'' False
     , Job ''Investment Banker'' ''Goldman & Associates'' ''New York, NY'' 120000 200000
         ''Provide financial advisory services.''
         ''Finance degree, MBA preferred, deal experience''
         ''Full-time'' ''Finance'' False
     , Job ''Tax Advisor'' ''Tax Experts'' ''Chicago, IL'' 70000 95000
         ''Provide tax planning and compliance services.''
         ''CPA, tax law, client management''
         ''Full-time'' ''Finance'' False
     , Job ''Auditor'' ''Audit Solutions'' ''Atlanta, GA'' 65000 90000
         ''Conduct financial audits and reviews.''
         ''CPA, auditing standards, analytical skills''
         ''Full-time'' ''Finance'' False
     , Job ''Business Analyst'' ''Consulting Group'' ''Washington DC'' 75000 100000
         ''Analyze business processes and recommend improvements.''
         ''Business analysis, requirements gathering, Agile''
         ''Full-time'' ''Other'' False
     , Job ''Management Consultant'' ''Strategy Consultants'' ''San Francisco, CA'' 100000 150000
         ''Advise businesses on strategy and operations.''
         ''MBA, consulting experience, problem-solving''
         ''Full-time'' ''Other'' False
     , Job ''Operations Manager'' ''Logistics Co'' ''Memphis, TN'' 70000 95000
         ''Oversee daily operations and logistics.''
         ''Operations management, process improvement''
         ''Full-time'' ''Other'' False
     , Job ''Risk Analyst'' ''Insurance Corp'' ''Hartford, CT'' 70000 95000
         ''Assess and manage business risks.''
         ''Risk analysis, statistics, financial modeling''
         ''Full-time'' ''Finance'' False
     , Job ''Portfolio Manager'' ''Investment Firm'' ''New York, NY'' 110000 160000
         ''Manage investment portfolios.''
         ''CFA, portfolio management, market analysis''
         ''Full-time'' ''Finance'' False
     , Job ''Financial Controller'' ''Manufacturing Corp'' ''Cleveland, OH'' 90000 125000
         ''Oversee financial reporting and controls.''
         ''CPA, controller experience, leadership''
         ''Full-time'' ''Finance'' False
     , Job ''Budget Analyst'' ''Government Agency'' ''Washington DC'' 65000 85000
         ''Analyze and prepare budget reports.''
         ''Budget analysis, Excel, government experience''
         ''Full-time'' ''Finance'' False
     , Job ''Credit Analyst'' ''Banking Corp'' ''Charlotte, NC'' 60000 80000
         ''Evaluate creditworthiness of loan applicants.''
         ''Credit analysis, financial statements, banking''
         ''Full-time'' ''Finance'' False
     , Job ''Supply Chain Manager'' ''Retail Giant'' ''Bentonville, AR'' 85000 115000
         ''Manage supply chain operations.''
         ''Supply chain management, logistics, ERP systems''
         ''Full-time'' ''Other'' False
     , Job ''Compliance Officer'' ''Financial Services'' ''New York, NY'' 80000 110000
         ''Ensure regulatory compliance.''
         ''Compliance knowledge, regulations, auditing''
         ''Full-time'' ''Finance'' False
     \<comment> \<open>Healthcare & Sciences (10 jobs)\<close>
     , Job ''Registered Nurse'' ''City Hospital'' ''Los Angeles, CA'' 70000 95000
         ''Provide patient care and support.''
         ''RN license, BSN, clinical experience''
         ''Full-time'' ''Other'' False
     , Job ''Pharmacist'' ''Pharmacy Chain'' ''Phoenix, AZ'' 110000 140000
         ''Dispense medications and provide consultation.''
         ''PharmD, state license, patient care''
         ''Full-time'' ''Other'' False
     , Job ''Medical Laboratory Technician'' ''LabCorp'' ''Burlington, NC'' 45000 60000
         ''Conduct laboratory tests and analysis.''
         ''MLT certification, lab experience''
         ''Full-time'' ''Other'' False
     , Job ''Physical Therapist'' ''Rehab Center'' ''Denver, CO'' 75000 95000
         ''Provide physical therapy services.''
         ''DPT, state license, patient care''
         ''Full-time'' ''Other'' False
     , Job ''Research Scientist'' ''Biotech Labs'' ''San Diego, CA'' 85000 120000
         ''Conduct scientific research and experiments.''
         ''PhD in life sciences, research experience''
         ''Full-time'' ''Other'' False
     , Job ''Clinical Research Coordinator'' ''Pharma Inc'' ''Boston, MA'' 55000 75000
         ''Coordinate clinical trials and research.''
         ''Clinical research, GCP, regulatory knowledge''
         ''Full-time'' ''Other'' False
     , Job ''Medical Writer'' ''HealthComm'' ''Remote'' 70000 95000
         ''Write medical and scientific content.''
         ''Life sciences degree, medical writing''
         ''Full-time'' ''Other'' True
     , Job ''Radiologic Technologist'' ''Imaging Center'' ''Houston, TX'' 55000 75000
         ''Perform diagnostic imaging procedures.''
         ''ARRT certification, radiology experience''
         ''Full-time'' ''Other'' False
     , Job ''Bioinformatics Specialist'' ''Genomics Lab'' ''San Francisco, CA'' 90000 125000
         ''Analyze biological data using computational methods.''
         ''Bioinformatics, Python/R, genomics''
         ''Full-time'' ''Other'' False
     , Job ''Occupational Therapist'' ''Healthcare Services'' ''Seattle, WA'' 70000 90000
         ''Help patients develop daily living skills.''
         ''OT license, patient assessment''
         ''Full-time'' ''Other'' False
     \<comment> \<open>Education & Other (10 jobs)\<close>
     , Job ''Software Training Instructor'' ''Tech Academy'' ''Remote'' 55000 80000
         ''Teach programming courses online.''
         ''Software development, teaching experience''
         ''Full-time'' ''Other'' True
     , Job ''HR Manager'' ''PeopleFirst Inc'' ''Dallas, TX'' 70000 95000
         ''Manage recruitment and employee relations.''
         ''HR experience, SHRM certification''
         ''Full-time'' ''Other'' False
     , Job ''Project Manager'' ''Construction Plus'' ''Phoenix, AZ'' 80000 110000
         ''Manage construction projects from start to finish.''
         ''PMP certification, 5+ years experience''
         ''Full-time'' ''Other'' False
     , Job ''Customer Success Manager'' ''SaaS Company'' ''Remote'' 65000 90000
         ''Ensure customer satisfaction and drive product adoption.''
         ''3+ years customer success experience''
         ''Full-time'' ''Other'' True
     , Job ''Legal Assistant'' ''Law Firm'' ''New York, NY'' 50000 70000
         ''Support attorneys with legal research and documentation.''
         ''Paralegal certificate, legal research''
         ''Full-time'' ''Other'' False
     , Job ''Executive Assistant'' ''Corporate HQ'' ''San Francisco, CA'' 60000 85000
         ''Provide administrative support to executives.''
         ''Executive support, organization, communication''
         ''Full-time'' ''Other'' False
     , Job ''Translator'' ''Language Services'' ''Remote'' 45000 65000
         ''Translate documents and communications.''
         ''Bilingual, translation certification''
         ''Contract'' ''Other'' True
     , Job ''Urban Planner'' ''City Planning Dept'' ''Portland, OR'' 65000 90000
         ''Plan land use and community development.''
         ''Urban planning degree, GIS, zoning knowledge''
         ''Full-time'' ''Other'' False
     , Job ''Real Estate Agent'' ''Realty Group'' ''Miami, FL'' 50000 100000
         ''Help clients buy and sell properties.''
         ''Real estate license, sales experience''
         ''Commission'' ''Other'' False
     , Job ''Interior Designer'' ''Design Interiors'' ''New York, NY'' 55000 85000
         ''Design interior spaces for residential and commercial clients.''
         ''Design degree, CAD, portfolio''
         ''Full-time'' ''Other'' False
     ]"

text \<open>
  \<^verbatim>\<open>GET /jobs/\<close>. The three filters narrow the query one after the other; when the
  narrowed query finds no row, the sample data is added and every row of the table is
  returned.
\<close>

definition get_jobs ::
  "instant \<Rightarrow> string option \<Rightarrow> string option \<Rightarrow> string option \<Rightarrow> 'h database \<Rightarrow>
   'h database \<times> job list" where
  "get_jobs now title' location' category' db =
     (let query = jobs db;
          query = (if truthy title'
                   then filter (\<lambda>j. contains (title j) (the title')) query else query);
          query = (if truthy location'
                   then filter (\<lambda>j. contains (location j) (the location')) query else query);
          query = (if truthy category' \<and> category' \<noteq> Some ''Any''
                   then filter (\<lambda>j. category j = the category') query else query);
          found = query
      in if found = []
         then (let db' = add_all now sample_jobs db in (db', jobs db'))
         else (db, found))"

definition create_job :: "instant \<Rightarrow> job_fields \<Rightarrow> 'h database \<Rightarrow> 'h database \<times> job" where
  "create_job now row db = (let db' = add_job now row db in (db', last (jobs db')))"

section \<open>Recommendations\<close>

text \<open>
  The table is a dictionary literal; iterating over its items follows the order in which
  the literal lists them, so it is kept as the list of its items.
\<close>

definition major_keywords :: "(string \<times> string list) list" where
  "major_keywords =
     [ (''computer science'', [''developer'', ''software'', ''programmer'', ''engineer'', ''it'', ''tech'', ''data'', ''web''])
     , (''information technology'', [''it'', ''developer'', ''software'', ''tech'', ''system'', ''network''])
     , (''software engineering'', [''software'', ''developer'', ''engineer'', ''programmer'', ''tech''])
     , (''computer engineering'', [''engineer'', ''software'', ''hardware'', ''developer'', ''tech''])
     , (''data science'', [''data'', ''analyst'', ''scientist'', ''analytics'', ''bi'', ''machine learning''])
     , (''artificial intelligence'', [''ai'', ''machine learning'', ''data'', ''scientist'', ''ml''])
     , (''cybersecurity'', [''security'', ''cybersecurity'', ''analyst'', ''engineer''])
     , (''business administration'', [''manager'', ''business'', ''admin'', ''operations'', ''consultant''])
     , (''management'', [''manager'', ''director'', ''operations'', ''project'', ''business''])
     , (''marketing'', [''marketing'', ''digital'', ''social media'', ''brand'', ''content''])
     , (''finance'', [''financial'', ''analyst'', ''accountant'', ''finance'', ''banking''])
     , (''accounting'', [''accountant'', ''finance'', ''auditor'', ''tax''])
     , (''economics'', [''economist'', ''analyst'', ''financial'', ''research''])
     , (''mechanical engineering'', [''mechanical'', ''engineer'', ''manufacturing'', ''design''])
     , (''electrical engineering'', [''electrical'', ''engineer'', ''electronics'', ''power''])
     , (''civil engineering'', [''civil'', ''engineer'', ''construction'', ''infrastructure''])
     , (''chemical engineering'', [''chemical'', ''engineer'', ''process'', ''manufacturing''])
     , (''nursing'', [''nurse'', ''healthcare'', ''medical'', ''clinical''])
     , (''medicine'', [''doctor'', ''physician'', ''medical'', ''clinical'', ''healthcare''])
     , (''pharmacy'', [''pharmacist'', ''pharmaceutical'', ''clinical''])
     ]"

fun matched_keywords :: "(string \<times> string list) list \<Rightarrow> string \<Rightarrow> string list" where
  \<comment> \<open>the loop over the items, left at the first major found in the user's string\<close>
  "matched_keywords [] user_major = []"
| "matched_keywords ((major, related_keywords) # items) user_major =
     (if str_in major user_major then related_keywords
      else matched_keywords items user_major)"

definition user_major :: "'h user \<Rightarrow> string" where
  "user_major current_user =
     (if graduation_institution current_user \<noteq> []
      then lower (graduation_institution current_user) else [])"

definition keyword_filters :: "string list \<Rightarrow> (job \<Rightarrow> bool) list" where
  "keyword_filters keywords =
     concat (map (\<lambda>keyword. [\<lambda>j. ilike (title j) (''%'' @ keyword @ ''%''),
                              \<lambda>j. ilike (category j) (''%'' @ keyword @ ''%'')]) keywords)"

definition sql_or :: "('a \<Rightarrow> bool) list \<Rightarrow> 'a \<Rightarrow> bool" where
  "sql_or filters j = list_ex (\<lambda>f. f j) filters"

definition get_recommended_jobs :: "'h user \<Rightarrow> 'h database \<Rightarrow> job list" where
  "get_recommended_jobs current_user db =
     (let keywords = matched_keywords major_keywords (user_major current_user) in
      if keywords = [] then take 10 (jobs db)
      else (let found = take 20 (filter (sql_or (keyword_filters keywords)) (jobs db)) in
            if found = [] then take 10 (jobs db) else found))"

section \<open>Applications\<close>

record submitted =
  message :: string
  application_id :: nat
  confirmation :: "string \<times> string \<times> string"

text \<open>
  \<^verbatim>\<open>POST /applications/\<close> for the authenticated user. \<open>confirmation\<close> holds the three
  arguments of the confirmation e-mail (recipient, job title, company).
\<close>

definition create_application ::
  "instant \<Rightarrow> nat \<Rightarrow> 'h user \<Rightarrow> 'h database \<Rightarrow> 'h database \<times> (error + submitted)" where
  "create_application now job_id' current_user db =
     (case find (\<lambda>a. user_id a = u_id current_user \<and> job_id a = job_id') (applications db) of
        Some existing \<Rightarrow> (db, Inl (HTTPException 400 ''Already applied''))
      | None \<Rightarrow>
          (case find (\<lambda>j. j_id j = job_id') (jobs db) of
             None \<Rightarrow> (db, Inl (HTTPException 404 ''Job not found''))
           | Some job' \<Rightarrow>
               (let db_application =
                      \<lparr>a_id = next_id (map a_id (applications db)),
                       user_id = u_id current_user,
                       job_id = job_id',
                       status = ''pending'',
                       applied_at = now\<rparr>
                in (db\<lparr>applications := applications db @ [db_application]\<rparr>,
                    Inr \<lparr>message = ''Application submitted successfully'',
                         application_id = a_id db_application,
                         confirmation = (email current_user, title job', company job')\<rparr>))))"

text \<open>
  \<^verbatim>\<open>GET /applications/\<close>: the user's applications, each with the title and the company
  of its job; an application whose job is not in the catalog is left out. An entry is the
  application's identifier, the job's title and company, the instant and the status.
\<close>

definition get_applications ::
  "'h user \<Rightarrow> 'h database \<Rightarrow> (nat \<times> string \<times> string \<times> instant \<times> string) list" where
  "get_applications current_user db =
     concat (map (\<lambda>app. case find (\<lambda>j. j_id j = job_id app) (jobs db) of
                          None \<Rightarrow> []
                        | Some job' \<Rightarrow>
                            [(a_id app, title job', company job', applied_at app, status app)])
                 (filter (\<lambda>a. user_id a = u_id current_user) (applications db)))"

section \<open>The states the interface can reach\<close>

text \<open>
  Requests are handled one at a time, each on the state the one before left. Logging in,
  asking for recommendations and listing applications change nothing and are left out.
\<close>

inductive reachable :: "('h, 't) library \<Rightarrow> 'h database \<Rightarrow> bool" for L :: "('h, 't) library" where
  start: "reachable L empty_database"
| signup_step:
    "reachable L db \<Longrightarrow>
     reachable L (fst (signup L now salt e p fn dob loc gd gi tm r db))"
| get_jobs_step:
    "reachable L db \<Longrightarrow> reachable L (fst (get_jobs now t l c db))"
| create_job_step:
    "reachable L db \<Longrightarrow> reachable L (fst (create_job now row db))"
| create_application_step:
    "reachable L db \<Longrightarrow> get_current_user e db = Inr current_user \<Longrightarrow>
     reachable L (fst (create_application now j current_user db))"

section \<open>Notions used in the statements and proofs\<close>

definition passes_filters :: "string option \<Rightarrow> string option \<Rightarrow> string option \<Rightarrow> job \<Rightarrow> bool" where
  \<comment> \<open>the conjunction of the filters that \<open>get_jobs\<close> applies one after the other\<close>
  "passes_filters t l c j =
     ((truthy t \<longrightarrow> contains (title j) (the t)) \<and>
      (truthy l \<longrightarrow> contains (location j) (the l)) \<and>
      (truthy c \<and> c \<noteq> Some ''Any'' \<longrightarrow> category j = the c))"

definition applied_pairs :: "'h database \<Rightarrow> (nat \<times> nat) list" where
  \<comment> \<open>the (user, job) pair of every application, in table order\<close>
  "applied_pairs db = map (\<lambda>a. (user_id a, job_id a)) (applications db)"

section \<open>Concrete libraries, states and requests\<close>

text \<open>
  An instance of the library contracts on which the theorems below are exercised: the
  hash keeps the salt and the secret, a token keeps its claims, key and algorithm, and no
  date is parsed.
\<close>

definition reference_library :: "(nat \<times> pystr, claims \<times> string \<times> string) library" where
  "reference_library =
     \<lparr>pwd_hash = (\<lambda>salt secret. (salt, secret)),
      pwd_verify = (\<lambda>secret h. snd h = secret),
      jwt_encode = (\<lambda>c key alg. (c, key, alg)),
      jwt_decode = (\<lambda>now token key algs.
         if fst (snd token) \<noteq> key \<or> snd (snd token) \<notin> set algs then Inl JWTError
         else (case fst token ''exp'' of
                 Some (Num e) \<Rightarrow> if e \<le> now then Inl ExpiredSignatureError else Inr (fst token)
               | _ \<Rightarrow> Inr (fst token))),
      strptime = (\<lambda>s fmt. None)\<rparr>"

definition flutter_row :: job_fields where
  "flutter_row = Job ''Flutter Developer'' ''Tech Corp'' ''New York, NY'' 80000 120000
     ''Build cross-platform mobile applications.'' ''Dart knowledge''
     ''Full-time'' ''IT'' True"

definition nurse_row :: job_fields where
  "nurse_row = Job ''Registered Nurse'' ''City Hospital'' ''Los Angeles, CA'' 70000 95000
     ''Provide patient care.'' ''RN license''
     ''Full-time'' ''Other'' False"

definition two_jobs :: "(nat \<times> pystr) database" where
  \<comment> \<open>a catalog of two jobs, with identifiers 1 and 2, and nothing else\<close>
  "two_jobs = fst (create_job 1 nurse_row (fst (create_job 0 flutter_row empty_database)))"

definition seeded :: "(nat \<times> pystr) database" where
  \<comment> \<open>a fresh database after its first job listing\<close>
  "seeded = fst (get_jobs 0 None None None empty_database)"

definition ada_registered :: "pystr \<Rightarrow> (nat \<times> pystr) database" where
  \<comment> \<open>a fresh database after one registration, with the given password\<close>
  "ada_registered password =
     fst (signup reference_library 0 7 ''ada@example.org'' password ''Ada'' None ''Boston, MA''
            None ''Computer Science'' ''bus'' False empty_database)"

definition graduate :: "string \<Rightarrow> (nat \<times> pystr) user" where
  \<comment> \<open>the user that registration stores, with the given field of study\<close>
  "graduate field =
     \<lparr>u_id = 1, email = ''ada@example.org'', hashed_password = (7, [112, 119]),
      full_name = ''Ada'', date_of_birth = None, user_location = ''Boston, MA'',
      graduation_date = None, graduation_institution = field, transportation_mode = ''bus'',
      resume_url = None, created_at = 0\<rparr>"

definition ada_applied :: "(nat \<times> pystr) database" where
  \<comment> \<open>registration, one job created, and one application of the user for it\<close>
  "ada_applied =
     fst (create_application 3 1 (graduate ''Computer Science'')
            (fst (create_job 1 flutter_row (ada_registered [112, 119]))))"

definition orphaned :: "(nat \<times> pystr) database" where
  \<comment> \<open>an application whose job is not in the catalog\<close>
  "orphaned =
     \<lparr>users = [], jobs = [],
      applications =
        [\<lparr>a_id = 1, user_id = 1, job_id = 7, status = ''pending'', applied_at = 0\<rparr>]\<rparr>"





section \<open>Lemmas\<close>

subsection \<open>Text and the LIKE operator\<close>

lemma str_in_sublist: "str_in p s \<longleftrightarrow> sublist p s"
  by (induction s) (auto simp: sublist_Cons_right)

lemma lower_char_table:
  "lower_char c = CHR ''%'' \<longleftrightarrow> c = CHR ''%''"
  "lower_char c = CHR ''_'' \<longleftrightarrow> c = CHR ''_''"
  "CHR ''%'' = lower_char c \<longleftrightarrow> c = CHR ''%''"
  "CHR ''_'' = lower_char c \<longleftrightarrow> c = CHR ''_''"
  by (auto simp: lower_char_def split: if_splits)

lemma lower_char_idem: "lower_char (lower_char c) = lower_char c"
  by (auto simp: lower_char_def split: if_splits)

lemma lower_idem: "lower (lower s) = lower s"
  by (simp add: lower_def lower_char_idem)

lemma wildcard_free_lower: "wildcard_free (lower k) = wildcard_free k"
  by (auto simp: wildcard_free_def lower_def image_iff lower_char_table)

lemma like_percent_any: "like ''%'' s"
  by (induction s) auto

lemma like_literal_prefix:
  "wildcard_free k \<Longrightarrow> like (k @ ''%'') s \<longleftrightarrow> prefix (lower k) (lower s)"
proof (induction k arbitrary: s)
  case Nil
  then show ?case using like_percent_any by (simp add: lower_def)
next
  case (Cons a k)
  then have k: "wildcard_free k" and a: "a \<noteq> CHR ''%''" "a \<noteq> CHR ''_''"
    by (auto simp: wildcard_free_def)
  show ?case
  proof (cases s)
    case Nil
    then show ?thesis using a by (simp add: lower_def)
  next
    case (Cons c cs)
    then show ?thesis using a Cons.IH [OF k, of cs] by (auto simp: lower_def)
  qed
qed

lemma like_percent_suffix: "like (CHR ''%'' # q) s \<longleftrightarrow> (\<exists>t. suffix t s \<and> like q t)"
proof (induction s)
  case Nil
  then show ?case by auto
next
  case (Cons c cs)
  then show ?case by (auto simp: suffix_Cons)
qed

lemma suffix_lower:
  "(\<exists>t. suffix t s \<and> prefix p (lower t)) \<longleftrightarrow> (\<exists>t'. suffix t' (lower s) \<and> prefix p t')"
  unfolding lower_def
  by (auto simp: suffix_def map_eq_append_conv)

lemma like_contains_sublist:
  assumes "wildcard_free k"
  shows "like (''%'' @ k @ ''%'') s \<longleftrightarrow> sublist (lower k) (lower s)"
proof -
  have "like (''%'' @ k @ ''%'') s \<longleftrightarrow> (\<exists>t. suffix t s \<and> prefix (lower k) (lower t))"
    using like_percent_suffix [of "k @ ''%''" s] like_literal_prefix [OF assms] by simp
  also have "\<dots> \<longleftrightarrow> sublist (lower k) (lower s)"
    by (simp add: suffix_lower sublist_altdef')
  finally show ?thesis .
qed

lemma contains_sublist:
  "wildcard_free x \<Longrightarrow> contains col x \<longleftrightarrow> sublist (lower x) (lower col)"
  using like_contains_sublist [of x col] by (simp add: contains_def)

lemma ilike_sublist:
  assumes "wildcard_free k"
  shows "ilike col (CHR ''%'' # k @ ''%'') \<longleftrightarrow> sublist (lower k) (lower col)"
proof -
  have "lower (CHR ''%'' # k @ ''%'') = ''%'' @ lower k @ ''%''"
    by (simp add: lower_def lower_char_def)
  then show ?thesis
    using like_contains_sublist [of "lower k" "lower col"] assms
    by (simp add: ilike_def wildcard_free_lower lower_idem)
qed

subsection \<open>The recommendation table\<close>

lemma matched_keywords_first:
  "tbl = pre @ (m, ks) # post \<Longrightarrow> str_in m s \<Longrightarrow> \<forall>(m', ks') \<in> set pre. \<not> str_in m' s \<Longrightarrow>
   matched_keywords tbl s = ks"
  by (induction pre arbitrary: tbl) auto

lemma matched_keywords_none:
  "\<forall>(m, ks) \<in> set tbl. \<not> str_in m s \<Longrightarrow> matched_keywords tbl s = []"
  by (induction tbl) auto

lemma matched_keywords_in_table:
  "matched_keywords tbl s \<noteq> [] \<Longrightarrow> matched_keywords tbl s \<in> snd ` set tbl"
  by (induction tbl) (auto split: if_splits)

lemma matched_keywords_nonempty:
  "e \<in> set tbl \<Longrightarrow> str_in (fst e) s \<Longrightarrow> \<forall>e \<in> set tbl. snd e \<noteq> [] \<Longrightarrow>
   matched_keywords tbl s \<noteq> []"
  by (induction tbl) (auto split: if_splits)

lemma user_major_lower: "user_major u = lower (graduation_institution u)"
  by (simp add: user_major_def lower_def)

lemma major_keywords_ok:
  "\<forall>e \<in> set major_keywords. snd e \<noteq> [] \<and> (\<forall>k \<in> set (snd e). wildcard_free k)"
  by (simp add: major_keywords_def wildcard_free_def)

lemma sql_or_keyword_filters:
  "sql_or (keyword_filters ks) j \<longleftrightarrow>
   (\<exists>k \<in> set ks. ilike (title j) (''%'' @ k @ ''%'') \<or> ilike (category j) (''%'' @ k @ ''%''))"
  by (auto simp: sql_or_def keyword_filters_def list_ex_iff)

lemma keyword_filter_sublist:
  assumes "\<forall>k \<in> set ks. wildcard_free k"
  shows "filter (sql_or (keyword_filters ks)) js =
         filter (\<lambda>j. \<exists>k \<in> set ks. sublist (lower k) (lower (title j))
                                \<or> sublist (lower k) (lower (category j))) js"
  using assms by (intro filter_cong refl) (simp add: sql_or_keyword_filters ilike_sublist)

lemma matched_major_keywords:
  "matched_keywords major_keywords s \<noteq> [] \<longleftrightarrow> (\<exists>(m, ks) \<in> set major_keywords. sublist m s)"
  "\<forall>k \<in> set (matched_keywords major_keywords s). wildcard_free k"
proof -
  show "matched_keywords major_keywords s \<noteq> [] \<longleftrightarrow> (\<exists>(m, ks) \<in> set major_keywords. sublist m s)"
  proof
    assume "matched_keywords major_keywords s \<noteq> []"
    then show "\<exists>(m, ks) \<in> set major_keywords. sublist m s"
      using matched_keywords_none [of major_keywords s] by (auto simp: str_in_sublist)
  next
    assume "\<exists>(m, ks) \<in> set major_keywords. sublist m s"
    then obtain e where "e \<in> set major_keywords" "str_in (fst e) s"
      by (auto simp: str_in_sublist)
    then show "matched_keywords major_keywords s \<noteq> []"
      using matched_keywords_nonempty [of e major_keywords s] major_keywords_ok by auto
  qed
  show "\<forall>k \<in> set (matched_keywords major_keywords s). wildcard_free k"
  proof (cases "matched_keywords major_keywords s = []")
    case True
    then show ?thesis by simp
  next
    case False
    then show ?thesis
      using matched_keywords_in_table [of major_keywords s] major_keywords_ok by auto
  qed
qed

subsection \<open>The job search\<close>

lemma get_jobs_filter:
  "get_jobs now t l c db =
     (if filter (passes_filters t l c) (jobs db) = []
      then (add_all now sample_jobs db, jobs (add_all now sample_jobs db))
      else (db, filter (passes_filters t l c) (jobs db)))"
proof -
  have "(if truthy c \<and> c \<noteq> Some ''Any'' then filter (\<lambda>j. category j = the c)
           (if truthy l then filter (\<lambda>j. contains (location j) (the l))
              (if truthy t then filter (\<lambda>j. contains (title j) (the t)) (jobs db) else jobs db)
            else (if truthy t then filter (\<lambda>j. contains (title j) (the t)) (jobs db) else jobs db))
         else (if truthy l then filter (\<lambda>j. contains (location j) (the l))
              (if truthy t then filter (\<lambda>j. contains (title j) (the t)) (jobs db) else jobs db)
            else (if truthy t then filter (\<lambda>j. contains (title j) (the t)) (jobs db) else jobs db)))
        = filter (passes_filters t l c) (jobs db)"
    by (auto simp: passes_filters_def intro: filter_cong)
  then show ?thesis
    by (simp add: get_jobs_def Let_def)
qed

lemma add_all_jobs_length:
  "length (jobs (add_all now rows db)) = length (jobs db) + length rows"
  unfolding add_all_def
  by (induction rows arbitrary: db) (simp_all add: add_job_def)

lemma sample_jobs_length: "length sample_jobs = 85"
  by (simp add: sample_jobs_def)

lemma passes_filters_Any: "passes_filters t l (Some ''Any'') = passes_filters t l None"
  by (simp add: passes_filters_def truthy_def fun_eq_iff)

lemma add_all_titles:
  "map title (jobs (add_all now rows db)) = map title (jobs db) @ map title rows"
  unfolding add_all_def
  by (induction rows arbitrary: db) (simp_all add: add_job_def job_fields.defs)

lemma sample_titles_without_zzz: "\<forall>t \<in> set (map title sample_jobs). \<not> contains t ''zzz''"
  by code_simp

subsection \<open>UTF-8 and truncation\<close>














subsection \<open>Registration, login and the reference library\<close>






subsection \<open>Applications and reachable states\<close>

lemma find_applied_pair:
  "find (\<lambda>a. user_id a = uid \<and> job_id a = jid) (applications db) = None
   \<longleftrightarrow> (uid, jid) \<notin> set (applied_pairs db)"
  by (auto simp: find_None_iff applied_pairs_def)

lemma find_job:
  "find (\<lambda>j. j_id j = jid) js = None \<longleftrightarrow> jid \<notin> set (map j_id js)"
  by (auto simp: find_None_iff)

lemma create_application_already:
  "(u_id u, jid) \<in> set (applied_pairs db) \<Longrightarrow>
   create_application now jid u db = (db, Inl (HTTPException 400 ''Already applied''))"
  using find_applied_pair [of "u_id u" jid db]
  by (auto simp: create_application_def split: option.splits)


lemma create_application_ok:
  assumes "(u_id u, jid) \<notin> set (applied_pairs db)" and "jid \<in> set (map j_id (jobs db))"
  shows "\<exists>r. create_application now jid u db =
           (db\<lparr>applications := applications db @
                 [\<lparr>a_id = next_id (map a_id (applications db)), user_id = u_id u,
                   job_id = jid, status = ''pending'', applied_at = now\<rparr>]\<rparr>, Inr r)"
  using assms find_applied_pair [of "u_id u" jid db] find_job [of jid "jobs db"]
  by (auto simp: create_application_def Let_def split: option.splits)

lemma create_application_pairs:
  "applied_pairs (fst (create_application now jid u db)) =
     (if (u_id u, jid) \<in> set (applied_pairs db) \<or> jid \<notin> set (map j_id (jobs db)) then applied_pairs db
      else applied_pairs db @ [(u_id u, jid)])"
  using find_applied_pair [of "u_id u" jid db] find_job [of jid "jobs db"]
  by (auto simp: create_application_def Let_def applied_pairs_def split: option.splits)

lemma add_all_frame:
  "applications (add_all now rows db) = applications db"
  "users (add_all now rows db) = users db"
  "set (jobs db) \<subseteq> set (jobs (add_all now rows db))"
  unfolding add_all_def
  by (induction rows arbitrary: db; fastforce simp: add_job_def)+

lemma get_jobs_frame:
  "applications (fst (get_jobs now t l c db)) = applications db"
  "set (jobs db) \<subseteq> set (jobs (fst (get_jobs now t l c db)))"
  by (simp_all add: get_jobs_filter add_all_frame)

lemma create_job_frame:
  "applications (fst (create_job now row db)) = applications db"
  "set (jobs db) \<subseteq> set (jobs (fst (create_job now row db)))"
  by (auto simp: create_job_def add_job_def Let_def)

lemma signup_frame:
  "applications (fst (signup L now salt e p fn dob loc gd gi tm r db)) = applications db"
  "jobs (fst (signup L now salt e p fn dob loc gd gi tm r db)) = jobs db"
  by (auto simp: signup_def Let_def split: option.splits sum.splits)

lemma reachable_distinct_pairs: "reachable L db \<Longrightarrow> distinct (applied_pairs db)"
proof (induction rule: reachable.induct)
  case start
  then show ?case by (simp add: applied_pairs_def empty_database_def)
next
  case (signup_step db now salt e p fn dob loc gd gi tm r)
  then show ?case by (simp add: applied_pairs_def signup_frame)
next
  case (get_jobs_step db now t l c)
  then show ?case by (simp add: applied_pairs_def get_jobs_frame)
next
  case (create_job_step db now row)
  then show ?case by (simp add: applied_pairs_def create_job_frame)
next
  case (create_application_step db e current_user now j)
  then show ?case by (simp add: create_application_pairs)
qed


lemma ada_applied_reachable: "reachable reference_library ada_applied"
proof -
  have 1: "reachable reference_library (ada_registered [112, 119])"
    unfolding ada_registered_def by (intro reachable.intros)
  have 2: "reachable reference_library (fst (create_job 1 flutter_row (ada_registered [112, 119])))"
    using 1 by (rule reachable.intros)
  have 3: "get_current_user (Str ''ada@example.org'')
             (fst (create_job 1 flutter_row (ada_registered [112, 119]))) = Inr (graduate ''Computer Science'')"
    by code_simp
  show ?thesis
    unfolding ada_applied_def using 2 3 by (rule reachable.intros)
qed

section \<open>The claims\<close>

subsection \<open>C1: the first major of the table wins\<close>

text \<open>
  C1. For every user, the keywords selected for the recommendation are those of the first
  entry of \<open>major_keywords\<close>, in the order of the table, whose major is contained in the
  lower-cased field-of-study string (entries after it are not looked at), and no keyword is
  selected when no major is contained in it. In particular a field of study that reads
  \<^verbatim>\<open>computer science and data science\<close> once lower-cased selects the keywords of
  \<^verbatim>\<open>computer science\<close>, not those of \<^verbatim>\<open>data science\<close>.
\<close>

theorem first_major_wins:
  "(\<forall>pre major ks post.
      major_keywords = pre @ (major, ks) # post \<and>
      sublist major (lower (graduation_institution u)) \<and>
      (\<forall>(m, ks') \<in> set pre. \<not> sublist m (lower (graduation_institution u)))
      \<longrightarrow> matched_keywords major_keywords (user_major u) = ks)
   \<and> ((\<forall>(m, ks) \<in> set major_keywords. \<not> sublist m (lower (graduation_institution u)))
        \<longrightarrow> matched_keywords major_keywords (user_major u) = [])
   \<and> (lower (graduation_institution u) = ''computer science and data science''
        \<longrightarrow> matched_keywords major_keywords (user_major u)
             = [''developer'', ''software'', ''programmer'', ''engineer'', ''it'', ''tech'',
                ''data'', ''web'']
          \<and> matched_keywords major_keywords (user_major u)
             \<noteq> [''data'', ''analyst'', ''scientist'', ''analytics'', ''bi'', ''machine learning''])"
proof (intro conjI allI impI)
  fix pre major ks post
  assume h: "major_keywords = pre @ (major, ks) # post \<and>
      sublist major (lower (graduation_institution u)) \<and>
      (\<forall>(m, ks') \<in> set pre. \<not> sublist m (lower (graduation_institution u)))"
  then show "matched_keywords major_keywords (user_major u) = ks"
    using matched_keywords_first [of major_keywords pre major ks post "user_major u"]
    by (simp add: user_major_lower str_in_sublist)
next
  assume "\<forall>(m, ks) \<in> set major_keywords. \<not> sublist m (lower (graduation_institution u))"
  then show "matched_keywords major_keywords (user_major u) = []"
    using matched_keywords_none [of major_keywords "user_major u"]
    by (simp add: user_major_lower str_in_sublist)
next
  assume "lower (graduation_institution u) = ''computer science and data science''"
  then show "matched_keywords major_keywords (user_major u)
             = [''developer'', ''software'', ''programmer'', ''engineer'', ''it'', ''tech'',
                ''data'', ''web'']"
    by (simp add: user_major_lower major_keywords_def)
next
  assume "lower (graduation_institution u) = ''computer science and data science''"
  then show "matched_keywords major_keywords (user_major u)
             \<noteq> [''data'', ''analyst'', ''scientist'', ''analytics'', ''bi'', ''machine learning'']"
    by (simp add: user_major_lower major_keywords_def)
qed

text \<open>
  C1 at three users: the fifth entry is selected when the four before it do not occur, no
  entry is selected for a field of study outside the table, and the first entry wins over
  the fifth when both occur.
\<close>

theorem first_major_wins_witness:
  "matched_keywords major_keywords (user_major (graduate ''MSc Data Science''))
     = [''data'', ''analyst'', ''scientist'', ''analytics'', ''bi'', ''machine learning'']
   \<and> matched_keywords major_keywords (user_major (graduate ''Philosophy'')) = []
   \<and> matched_keywords major_keywords (user_major (graduate ''Computer Science and Data Science''))
     = [''developer'', ''software'', ''programmer'', ''engineer'', ''it'', ''tech'', ''data'', ''web'']"
proof -
  let ?ds = "[''data'', ''analyst'', ''scientist'', ''analytics'', ''bi'', ''machine learning'']"
  have split: "major_keywords = take 4 major_keywords @ (''data science'', ?ds) # drop 5 major_keywords"
    by code_simp
  have hit: "sublist ''data science'' (lower (graduation_institution (graduate ''MSc Data Science'')))"
    by code_simp
  have before: "\<forall>(m, ks') \<in> set (take 4 major_keywords).
      \<not> sublist m (lower (graduation_institution (graduate ''MSc Data Science'')))"
    by code_simp
  have none: "\<forall>(m, ks) \<in> set major_keywords.
      \<not> sublist m (lower (graduation_institution (graduate ''Philosophy'')))"
    by code_simp
  have both: "lower (graduation_institution (graduate ''Computer Science and Data Science''))
      = ''computer science and data science''"
    by code_simp
  have "major_keywords = take 4 major_keywords @ (''data science'', ?ds) # drop 5 major_keywords \<and>
      sublist ''data science'' (lower (graduation_institution (graduate ''MSc Data Science''))) \<and>
      (\<forall>(m, ks') \<in> set (take 4 major_keywords).
         \<not> sublist m (lower (graduation_institution (graduate ''MSc Data Science''))))"
    by (intro conjI split hit before)
  then have 1: "matched_keywords major_keywords (user_major (graduate ''MSc Data Science'')) = ?ds"
    by (rule first_major_wins [of "graduate ''MSc Data Science''", THEN conjunct1, rule_format])
  from none
  have 2: "matched_keywords major_keywords (user_major (graduate ''Philosophy'')) = []"
    by (rule first_major_wins [of "graduate ''Philosophy''",
          THEN conjunct2, THEN conjunct1, THEN mp])
  from both
  have 3: "matched_keywords major_keywords
             (user_major (graduate ''Computer Science and Data Science''))
           = [''developer'', ''software'', ''programmer'', ''engineer'', ''it'', ''tech'',
              ''data'', ''web'']"
    by (rule first_major_wins [of "graduate ''Computer Science and Data Science''",
          THEN conjunct2, THEN conjunct2, THEN mp, THEN conjunct1])
  from 1 2 3 show ?thesis by (intro conjI)
qed

subsection \<open>C2: the recommended jobs\<close>

text \<open>
  C2. For every catalog and every user: when a major of the table occurs in the user's
  field of study and at least one job has one of the selected keywords in its title or in
  its category (compared without regard to the case of letters), the recommendation is the
  first 20 such jobs in catalog order; when no major occurs, or no job has a keyword, it is
  the first 10 jobs of the catalog. The operation has no failure, and its result is empty
  only when the catalog is.
\<close>

theorem recommended_jobs_result:
  "(let ks = matched_keywords major_keywords (user_major u);
        hits = filter (\<lambda>j. \<exists>k \<in> set ks. sublist (lower k) (lower (title j))
                                      \<or> sublist (lower k) (lower (category j))) (jobs db)
    in ((\<exists>(m, ks') \<in> set major_keywords. sublist m (user_major u)) \<and> hits \<noteq> []
          \<longrightarrow> get_recommended_jobs u db = take 20 hits)
     \<and> (\<not> (\<exists>(m, ks') \<in> set major_keywords. sublist m (user_major u)) \<or> hits = []
          \<longrightarrow> get_recommended_jobs u db = take 10 (jobs db))
     \<and> (get_recommended_jobs u db = [] \<longrightarrow> jobs db = []))"
proof -
  define ks where "ks = matched_keywords major_keywords (user_major u)"
  define hits where "hits = filter (\<lambda>j. \<exists>k \<in> set ks. sublist (lower k) (lower (title j))
                                      \<or> sublist (lower k) (lower (category j))) (jobs db)"
  have matches: "(\<exists>(m, ks') \<in> set major_keywords. sublist m (user_major u)) \<longleftrightarrow> ks \<noteq> []"
    unfolding ks_def by (simp only: matched_major_keywords(1))
  have found: "filter (sql_or (keyword_filters ks)) (jobs db) = hits"
    unfolding hits_def ks_def
    by (rule keyword_filter_sublist) (rule matched_major_keywords(2))
  have result: "get_recommended_jobs u db =
      (if ks = [] \<or> hits = [] then take 10 (jobs db) else take 20 hits)"
    by (auto simp: get_recommended_jobs_def Let_def ks_def [symmetric] found)
  have empty: "get_recommended_jobs u db = [] \<longrightarrow> jobs db = []"
    unfolding result by (auto simp: hits_def)
  show ?thesis
    unfolding Let_def ks_def [symmetric] hits_def [symmetric] matches
    using result empty by auto
qed

text \<open>
  C2 on the catalog of two jobs: a computer science graduate gets the developer job, a
  graduate of a field outside the table gets the whole catalog, and so does a pharmacy
  graduate, whose keywords occur in no job.
\<close>

theorem recommended_jobs_result_witness:
  "map title (get_recommended_jobs (graduate ''BSc Computer Science'') two_jobs)
     = [''Flutter Developer'']
   \<and> map title (get_recommended_jobs (graduate ''Philosophy'') two_jobs)
     = [''Flutter Developer'', ''Registered Nurse'']
   \<and> map title (get_recommended_jobs (graduate ''Pharmacy'') two_jobs)
     = [''Flutter Developer'', ''Registered Nurse'']"
proof -
  let ?hits = "\<lambda>u. filter (\<lambda>j. \<exists>k \<in> set (matched_keywords major_keywords (user_major u)).
                    sublist (lower k) (lower (title j)) \<or> sublist (lower k) (lower (category j)))
                 (jobs two_jobs)"
  have cs: "(\<exists>(m, ks') \<in> set major_keywords. sublist m (user_major (graduate ''BSc Computer Science'')))
            \<and> ?hits (graduate ''BSc Computer Science'') \<noteq> []"
    by code_simp
  have cs_hits: "map title (take 20 (?hits (graduate ''BSc Computer Science''))) = [''Flutter Developer'']"
    by code_simp
  have ph: "\<not> (\<exists>(m, ks') \<in> set major_keywords. sublist m (user_major (graduate ''Philosophy'')))"
    by code_simp
  have rx: "?hits (graduate ''Pharmacy'') = []"
    by code_simp
  have all: "map title (take 10 (jobs two_jobs)) = [''Flutter Developer'', ''Registered Nurse'']"
    by code_simp
  from cs
  have 1: "get_recommended_jobs (graduate ''BSc Computer Science'') two_jobs
           = take 20 (?hits (graduate ''BSc Computer Science''))"
    by (rule recommended_jobs_result [of "graduate ''BSc Computer Science''" two_jobs,
          unfolded Let_def, THEN conjunct1, THEN mp])
  from ph
  have 2: "get_recommended_jobs (graduate ''Philosophy'') two_jobs = take 10 (jobs two_jobs)"
    by (intro recommended_jobs_result [of "graduate ''Philosophy''" two_jobs,
          unfolded Let_def, THEN conjunct2, THEN conjunct1, THEN mp] disjI1)
  from rx
  have 3: "get_recommended_jobs (graduate ''Pharmacy'') two_jobs = take 10 (jobs two_jobs)"
    by (intro recommended_jobs_result [of "graduate ''Pharmacy''" two_jobs,
          unfolded Let_def, THEN conjunct2, THEN conjunct1, THEN mp] disjI2)
  show ?thesis
    unfolding 1 2 3 using cs_hits all by (intro conjI)
qed

subsection \<open>C3: a search without a match seeds the catalog again\<close>

text \<open>
  C3. The listing adds the sample data whenever the filtered query finds nothing, also on
  a catalog that has jobs: a fresh database holds the 85 sample jobs after its first
  listing, and 170 jobs after a search for a title that no job has.
\<close>

theorem seeding_repeats:
  "length (jobs seeded) = 85
   \<and> length (jobs (fst (get_jobs 1 (Some ''zzz'') None None seeded))) = 170"
proof -
  have s: "seeded = add_all 0 sample_jobs empty_database"
    by (simp add: seeded_def get_jobs_filter empty_database_def)
  have len: "length (jobs seeded) = 85"
    by (simp add: s add_all_jobs_length sample_jobs_length empty_database_def)
  have "map title (jobs seeded) = map title sample_jobs"
    by (simp add: s add_all_titles empty_database_def)
  then have "\<forall>j \<in> set (jobs seeded). title j \<in> set (map title sample_jobs)"
    by (metis image_eqI list.set_map)
  then have "filter (passes_filters (Some ''zzz'') None None) (jobs seeded) = []"
    using sample_titles_without_zzz by (auto simp: filter_empty_conv passes_filters_def truthy_def)
  then have "fst (get_jobs 1 (Some ''zzz'') None None seeded) = add_all 1 sample_jobs seeded"
    by (simp add: get_jobs_filter)
  then show ?thesis
    using len by (simp add: add_all_jobs_length sample_jobs_length)
qed

subsection \<open>C4: the result of a search\<close>

text \<open>
  C4, as it holds of the code. For every catalog and every combination of title, location and category
  filters whose title and location texts hold no \<^verbatim>\<open>%\<close> and no \<^verbatim>\<open>_\<close>: when at
  least one job passes all the filters that are given and not empty (the title and the
  location contain the text, compared without regard to the case of the letters A to Z; the
  category is equal to the one asked for unless that is \<^verbatim>\<open>Any\<close>), the search returns
  exactly those jobs, in catalog order, and leaves the catalog as it was. The category
  \<^verbatim>\<open>Any\<close> gives what no category gives. Without any filter the search returns every
  job of the catalog as the call leaves it, and it leaves a catalog that has jobs as it was.
\<close>

theorem search_result:
  "(let wanted = (\<lambda>j. (truthy t \<longrightarrow> sublist (lower (the t)) (lower (title j))) \<and>
                       (truthy l \<longrightarrow> sublist (lower (the l)) (lower (location j))) \<and>
                       (truthy c \<and> c \<noteq> Some ''Any'' \<longrightarrow> category j = the c))
    in (truthy t \<longrightarrow> wildcard_free (the t)) \<and> (truthy l \<longrightarrow> wildcard_free (the l)) \<and>
       filter wanted (jobs db) \<noteq> []
       \<longrightarrow> get_jobs now t l c db = (db, filter wanted (jobs db)))
   \<and> get_jobs now t l (Some ''Any'') db = get_jobs now t l None db
   \<and> snd (get_jobs now None None None db) = jobs (fst (get_jobs now None None None db))
   \<and> (jobs db \<noteq> [] \<longrightarrow> get_jobs now None None None db = (db, jobs db))"
proof (intro conjI)
  show "let wanted = (\<lambda>j. (truthy t \<longrightarrow> sublist (lower (the t)) (lower (title j))) \<and>
                       (truthy l \<longrightarrow> sublist (lower (the l)) (lower (location j))) \<and>
                       (truthy c \<and> c \<noteq> Some ''Any'' \<longrightarrow> category j = the c))
    in (truthy t \<longrightarrow> wildcard_free (the t)) \<and> (truthy l \<longrightarrow> wildcard_free (the l)) \<and>
       filter wanted (jobs db) \<noteq> []
       \<longrightarrow> get_jobs now t l c db = (db, filter wanted (jobs db))"
    unfolding Let_def
  proof (intro impI, elim conjE)
    let ?wanted = "\<lambda>j. (truthy t \<longrightarrow> sublist (lower (the t)) (lower (title j))) \<and>
                       (truthy l \<longrightarrow> sublist (lower (the l)) (lower (location j))) \<and>
                       (truthy c \<and> c \<noteq> Some ''Any'' \<longrightarrow> category j = the c)"
    assume wf: "truthy t \<longrightarrow> wildcard_free (the t)" "truthy l \<longrightarrow> wildcard_free (the l)"
      and ne: "filter ?wanted (jobs db) \<noteq> []"
    have "passes_filters t l c = ?wanted"
      using wf by (auto simp: passes_filters_def fun_eq_iff contains_sublist)
    then show "get_jobs now t l c db = (db, filter ?wanted (jobs db))"
      using ne by (simp add: get_jobs_filter)
  qed
next
  show "get_jobs now t l (Some ''Any'') db = get_jobs now t l None db"
    by (simp only: get_jobs_filter passes_filters_Any)
next
  show "snd (get_jobs now None None None db) = jobs (fst (get_jobs now None None None db))"
    by (simp add: get_jobs_filter passes_filters_def truthy_def)
next
  show "jobs db \<noteq> [] \<longrightarrow> get_jobs now None None None db = (db, jobs db)"
    by (simp add: get_jobs_filter passes_filters_def truthy_def)
qed

text \<open>
  C4 on the catalog of two jobs: a search by title, location and category finds the
  developer job; \<^verbatim>\<open>Any\<close> and no filter return the whole catalog.
\<close>

theorem search_result_witness:
  "fst (get_jobs 5 (Some ''DEVELOPER'') (Some ''new york'') (Some ''IT'') two_jobs) = two_jobs
   \<and> map title (snd (get_jobs 5 (Some ''DEVELOPER'') (Some ''new york'') (Some ''IT'') two_jobs))
     = [''Flutter Developer'']
   \<and> get_jobs 5 None None (Some ''Any'') two_jobs = get_jobs 5 None None None two_jobs
   \<and> get_jobs 5 None None None two_jobs = (two_jobs, jobs two_jobs)"
proof -
  let ?t = "Some ''DEVELOPER''" and ?l = "Some ''new york''" and ?c = "Some ''IT''"
  let ?wanted = "\<lambda>j. (truthy ?t \<longrightarrow> sublist (lower (the ?t)) (lower (title j))) \<and>
                       (truthy ?l \<longrightarrow> sublist (lower (the ?l)) (lower (location j))) \<and>
                       (truthy ?c \<and> ?c \<noteq> Some ''Any'' \<longrightarrow> category j = the ?c)"
  note w = search_result [of ?t ?l ?c two_jobs 5, unfolded Let_def]
  note n = search_result [of None None None two_jobs 5, unfolded Let_def]
  have h: "(truthy ?t \<longrightarrow> wildcard_free (the ?t)) \<and> (truthy ?l \<longrightarrow> wildcard_free (the ?l)) \<and>
           filter ?wanted (jobs two_jobs) \<noteq> []"
    by code_simp
  have r: "map title (filter ?wanted (jobs two_jobs)) = [''Flutter Developer'']"
    by code_simp
  have ne: "jobs two_jobs \<noteq> []"
    by code_simp
  from h have 1: "get_jobs 5 ?t ?l ?c two_jobs = (two_jobs, filter ?wanted (jobs two_jobs))"
    by (rule w [THEN conjunct1, THEN mp])
  have 2: "get_jobs 5 None None (Some ''Any'') two_jobs = get_jobs 5 None None None two_jobs"
    by (rule n [THEN conjunct2, THEN conjunct1])
  from ne have 3: "get_jobs 5 None None None two_jobs = (two_jobs, jobs two_jobs)"
    by (rule n [THEN conjunct2, THEN conjunct2, THEN conjunct2, THEN mp])
  show ?thesis
    unfolding 1 2 3 using r by simp
qed

text \<open>
  C4 as it was stated fails on the catalog of two jobs: the empty category returns both
  jobs although neither has an empty category, and the title \<^verbatim>\<open>_\<close> returns both jobs
  although neither title contains an underscore.
\<close>

theorem search_counterexample:
  "snd (get_jobs 5 None None (Some '''') two_jobs) = jobs two_jobs
   \<and> map category (jobs two_jobs) = [''IT'', ''Other'']
   \<and> snd (get_jobs 5 (Some ''_'') None None two_jobs) = jobs two_jobs
   \<and> map title (jobs two_jobs) = [''Flutter Developer'', ''Registered Nurse'']"
  by code_simp

subsection \<open>C5: login compares truncated passwords\<close>




subsection \<open>C6: the lifetime of a token\<close>



subsection \<open>C7: one application per user and job\<close>

text \<open>
  C7. For every state, user and job of the catalog for which the user has no application:
  the first submission succeeds and adds one application, with status \<^verbatim>\<open>pending\<close>,
  and a second submission for the same job fails with \<^verbatim>\<open>Already applied\<close> and changes
  nothing. Every state that requests handled one after the other reach holds at most one
  application per user and job.
\<close>

theorem second_application_refused:
  "(jid \<in> set (map j_id (jobs db)) \<and> (u_id u, jid) \<notin> set (applied_pairs db) \<longrightarrow>
      (\<exists>r. create_application now jid u db =
         (db\<lparr>applications := applications db @
               [\<lparr>a_id = next_id (map a_id (applications db)), user_id = u_id u,
                 job_id = jid, status = ''pending'', applied_at = now\<rparr>]\<rparr>, Inr r))
      \<and> create_application now' jid u (fst (create_application now jid u db)) =
          (fst (create_application now jid u db), Inl (HTTPException 400 ''Already applied'')))
   \<and> (reachable L db \<longrightarrow> distinct (applied_pairs db))"
proof (intro conjI impI)
  assume h: "jid \<in> set (map j_id (jobs db)) \<and> (u_id u, jid) \<notin> set (applied_pairs db)"
  then show "\<exists>r. create_application now jid u db =
         (db\<lparr>applications := applications db @
               [\<lparr>a_id = next_id (map a_id (applications db)), user_id = u_id u,
                 job_id = jid, status = ''pending'', applied_at = now\<rparr>]\<rparr>, Inr r)"
    using create_application_ok [of u jid db now] by simp
  have "(u_id u, jid) \<in> set (applied_pairs (fst (create_application now jid u db)))"
    using h by (simp add: create_application_pairs)
  then show "create_application now' jid u (fst (create_application now jid u db)) =
          (fst (create_application now jid u db), Inl (HTTPException 400 ''Already applied''))"
    by (rule create_application_already)
next
  assume "reachable L db"
  then show "distinct (applied_pairs db)" by (rule reachable_distinct_pairs)
qed

text \<open>
  C7 on the catalog of two jobs, and on a state reached by a registration, the creation
  of a job and an application.
\<close>

theorem second_application_refused_witness:
  "(\<exists>r. create_application 3 1 (graduate ''Nursing'') two_jobs =
         (two_jobs\<lparr>applications :=
               [\<lparr>a_id = 1, user_id = 1, job_id = 1, status = ''pending'', applied_at = 3\<rparr>]\<rparr>, Inr r))
   \<and> create_application 4 1 (graduate ''Nursing'')
        (fst (create_application 3 1 (graduate ''Nursing'') two_jobs)) =
       (fst (create_application 3 1 (graduate ''Nursing'') two_jobs),
        Inl (HTTPException 400 ''Already applied''))
   \<and> applied_pairs ada_applied = [(1, 1)] \<and> distinct (applied_pairs ada_applied)"
proof -
  have h: "1 \<in> set (map j_id (jobs two_jobs))
           \<and> (u_id (graduate ''Nursing''), 1) \<notin> set (applied_pairs two_jobs)"
    by code_simp
  have e: "applications two_jobs = []" "u_id (graduate ''Nursing'') = 1"
    "next_id [] = 1"
    by code_simp+
  have p: "applied_pairs ada_applied = [(1, 1)]"
    by code_simp
  show ?thesis
    using second_application_refused [of 1 two_jobs "graduate ''Nursing''" 3 4 reference_library] h
      second_application_refused [of 1 ada_applied "graduate ''Computer Science''" 3 4 reference_library]
      ada_applied_reachable e p
    by simp
qed

subsection \<open>C8: an application for a job that does not exist\<close>




subsection \<open>C9: a login fails in one way\<close>



subsection \<open>C10: the duplicate check comes first\<close>

text \<open>
  C10. For every state in which the user has an application for a job identifier, a
  submission for that identifier fails with \<^verbatim>\<open>Already applied\<close> and the state is
  unchanged, whether or not a job with that identifier exists.
\<close>

theorem duplicate_check_first:
  "(u_id u, jid) \<in> set (applied_pairs db)
     \<longrightarrow> create_application now jid u db = (db, Inl (HTTPException 400 ''Already applied''))"
  using create_application_already [of u jid db now] by simp

text \<open>
  C10 in a state where the application's job is not in the catalog.
\<close>

theorem duplicate_check_first_witness:
  "create_application 5 7 (graduate ''Nursing'') orphaned
     = (orphaned, Inl (HTTPException 400 ''Already applied''))
   \<and> find (\<lambda>j. j_id j = 7) (jobs (orphaned :: (nat \<times> pystr) database)) = None"
proof -
  have "(u_id (graduate ''Nursing''), 7) \<in> set (applied_pairs (orphaned :: (nat \<times> pystr) database))"
    by code_simp
  moreover have "find (\<lambda>j. j_id j = 7) (jobs (orphaned :: (nat \<times> pystr) database)) = None"
    by code_simp
  ultimately show ?thesis
    using duplicate_check_first [of "graduate ''Nursing''" 7 orphaned 5] by simp
qed

end
